theory Spec2Isabelle
  imports Main "HOL-Library.Sublist" "HOL-Library.AList"
begin

section \<open>Text and characters\<close>

text \<open>
  Python strings are modelled as Isabelle strings. An Isabelle character is one of the
  code points U+0000 to U+00FF, so the model covers Latin-1 text; the classification of
  these code points by \<^verbatim>\<open>str.isalpha\<close>, \<^verbatim>\<open>str.isspace\<close> and the regular
  expression class \<^verbatim>\<open>\w\<close> is written out below as CPython computes it.
\<close>


definition codepoint :: "char \<Rightarrow> nat" where
  "codepoint c = of_char c"

text \<open>\<^verbatim>\<open>str.isalpha\<close>: the letters (Unicode categories L*) below U+0100.\<close>

definition isalpha :: "char \<Rightarrow> bool" where
  "isalpha c = (let n = codepoint c in
     (65 \<le> n \<and> n \<le> 90) \<or> (97 \<le> n \<and> n \<le> 122) \<or> n = 170 \<or> n = 181 \<or> n = 186
     \<or> (192 \<le> n \<and> n \<le> 214) \<or> (216 \<le> n \<and> n \<le> 246) \<or> 248 \<le> n)"

text \<open>
  The characters for which one of \<^verbatim>\<open>isdecimal\<close>, \<^verbatim>\<open>isdigit\<close>, \<^verbatim>\<open>isnumeric\<close>
  holds: the ASCII digits, the superscripts 2, 3, 1 and the three vulgar fractions.
\<close>

definition isnumeric :: "char \<Rightarrow> bool" where
  "isnumeric c = (let n = codepoint c in
     (48 \<le> n \<and> n \<le> 57) \<or> n = 178 \<or> n = 179 \<or> n = 185 \<or> (188 \<le> n \<and> n \<le> 190))"

definition isalnum :: "char \<Rightarrow> bool" where
  "isalnum c = (isalpha c \<or> isnumeric c)"

text \<open>The class \<^verbatim>\<open>\w\<close> of \<^verbatim>\<open>re\<close> on str patterns: alphanumeric or underscore.\<close>

definition isword :: "char \<Rightarrow> bool" where
  "isword c = (isalnum c \<or> c = CHR ''_'')"

text \<open>Whitespace as \<^verbatim>\<open>str.split()\<close> and \<^verbatim>\<open>str.strip()\<close> see it.\<close>

definition isspace :: "char \<Rightarrow> bool" where
  "isspace c = (let n = codepoint c in
     (9 \<le> n \<and> n \<le> 13) \<or> (28 \<le> n \<and> n \<le> 32) \<or> n = 133 \<or> n = 160)"

text \<open>\<^verbatim>\<open>str.lower\<close> below U+0100: A to Z and the capital letters U+00C0 to U+00DE.\<close>

definition lower_char :: "char \<Rightarrow> char" where
  "lower_char c = (let n = codepoint c in
     if (65 \<le> n \<and> n \<le> 90) \<or> (192 \<le> n \<and> n \<le> 214) \<or> (216 \<le> n \<and> n \<le> 222)
     then char_of (n + 32) else c)"

definition lower :: "string \<Rightarrow> string" where
  "lower s = map lower_char s"

subsection \<open>String methods\<close>

text \<open>
  \<^verbatim>\<open>s.split()\<close> with no argument: skip whitespace, take the run of non-whitespace
  characters as one item, continue after it. No item is empty.
\<close>

function split :: "string \<Rightarrow> string list" where
  "split s =
     (case dropWhile isspace s of
        [] \<Rightarrow> []
      | c # cs \<Rightarrow> takeWhile (\<lambda>x. \<not> isspace x) (c # cs) # split (dropWhile (\<lambda>x. \<not> isspace x) cs))"
  by pat_completeness auto
termination
proof (relation "measure length")
  fix s c cs
  assume "dropWhile isspace s = c # cs"
  then have "length (c # cs) \<le> length s"
    by (metis length_dropWhile_le)
  moreover have "length (dropWhile (\<lambda>x. \<not> isspace x) cs) \<le> length cs"
    by (rule length_dropWhile_le)
  ultimately show "(dropWhile (\<lambda>x. \<not> isspace x) cs, s) \<in> measure length"
    by simp
qed simp

declare split.simps [simp del]

text \<open>\<^verbatim>\<open>sep.join(items)\<close>.\<close>

fun join :: "string \<Rightarrow> string list \<Rightarrow> string" where
  "join sep [] = []"
| "join sep [x] = x"
| "join sep (x # y # ys) = x @ sep @ join sep (y # ys)"

text \<open>\<^verbatim>\<open>s.strip()\<close>.\<close>

definition strip :: "string \<Rightarrow> string" where
  "strip s = rev (dropWhile isspace (rev (dropWhile isspace s)))"

text \<open>\<^verbatim>\<open>s.split(sep)[0]\<close>: the part of \<open>s\<close> before the first occurrence of \<open>sep\<close>,
  all of \<open>s\<close> when there is none.\<close>

fun before_sep :: "string \<Rightarrow> string \<Rightarrow> string" where
  "before_sep sep [] = []"
| "before_sep sep (c # cs) = (if prefix sep (c # cs) then [] else c # before_sep sep cs)"

text \<open>
  The test \<^verbatim>\<open>x and x.strip()\<close> of lines 98, 126 and 129 on an optional string: the
  value is not \<^verbatim>\<open>None\<close>, not empty, and not all whitespace.
\<close>

definition has_text :: "string option \<Rightarrow> bool" where
  "has_text x = (case x of None \<Rightarrow> False | Some s \<Rightarrow> s \<noteq> [] \<and> strip s \<noteq> [])"

subsection \<open>\<^verbatim>\<open>absolutize_url\<close> (helpers.py, lines 11 to 25)\<close>

definition endswith_slash :: "string \<Rightarrow> bool" where
  "endswith_slash s = (s \<noteq> [] \<and> last s = CHR ''/'')"

definition startswith_slash :: "string \<Rightarrow> bool" where
  "startswith_slash s = (case s of [] \<Rightarrow> False | c # _ \<Rightarrow> c = CHR ''/'')"

text \<open>
  The function has two branches and no \<^verbatim>\<open>else\<close>: when neither test holds Python
  falls off the end and returns \<^verbatim>\<open>None\<close>, which is the value \<open>None\<close> here. No
  operation of the body can raise on strings, so there is no error outcome.
  \<^verbatim>\<open>path[1:]\<close> is \<open>drop 1 path\<close>.
\<close>

definition absolutize_url :: "string \<Rightarrow> string \<Rightarrow> string option" where
  "absolutize_url address path =
     (if endswith_slash address \<noteq> startswith_slash path then Some (address @ path)
      else if endswith_slash address \<and> startswith_slash path then Some (address @ drop 1 path)
      else None)"

subsection \<open>\<^verbatim>\<open>reinforce_text\<close> (helpers.py, lines 28 to 47)\<close>

text \<open>
  Line 44 calls \<^verbatim>\<open>re.sub(fr'\b{word}\b', f'<strong>{word}</strong>', text)\<close>. The word
  is made of letters only, so the pattern has no metacharacter and the replacement no
  escape: the pattern matches the literal word between two word boundaries. \<^verbatim>\<open>\b\<close>
  holds between two positions when exactly one of the neighbouring characters is a
  \<^verbatim>\<open>\w\<close> character, the start and the end of the string counting as not \<^verbatim>\<open>\w\<close>.
\<close>

definition word_opt :: "char option \<Rightarrow> bool" where
  "word_opt x = (case x of None \<Rightarrow> False | Some c \<Rightarrow> isword c)"

definition word_boundary :: "char option \<Rightarrow> char option \<Rightarrow> bool" where
  "word_boundary l r = (word_opt l \<noteq> word_opt r)"

definition first_char :: "string \<Rightarrow> char option" where
  "first_char s = (case s of [] \<Rightarrow> None | c # _ \<Rightarrow> Some c)"

text \<open>The pattern matches at the start of \<open>s\<close>, the character before \<open>s\<close> being \<open>prev\<close>.\<close>

definition match_here :: "string \<Rightarrow> char option \<Rightarrow> string \<Rightarrow> bool" where
  "match_here word prev s =
     (word \<noteq> [] \<and> prefix word s
      \<and> word_boundary prev (first_char word)
      \<and> word_boundary (Some (last word)) (first_char (drop (length word) s)))"

text \<open>
  \<^verbatim>\<open>re.sub\<close> scans from the left: at a position where the pattern matches it emits
  the replacement and continues after the match, elsewhere it copies one character.
\<close>

function re_sub_from :: "string \<Rightarrow> string \<Rightarrow> char option \<Rightarrow> string \<Rightarrow> string" where
  "re_sub_from word repl prev s =
     (if s = [] then []
      else if match_here word prev s
      then repl @ re_sub_from word repl (Some (last word)) (drop (length word) s)
      else hd s # re_sub_from word repl (Some (hd s)) (tl s))"
  by pat_completeness auto
termination
  by (relation "measure (\<lambda>(word, repl, prev, s). length s)") (auto simp: match_here_def)

declare re_sub_from.simps [simp del]

definition re_sub_word :: "string \<Rightarrow> string \<Rightarrow> string" where
  "re_sub_word word text = re_sub_from word (''<strong>'' @ word @ ''</strong>'') None text"

text \<open>
  Line 40: every character that is not a letter becomes a blank, and the result is split
  at whitespace. The items are the maximal runs of letters of the text.
\<close>

definition alpha_tokens :: "string \<Rightarrow> string list" where
  "alpha_tokens text = split (map (\<lambda>char. if isalpha char then char else CHR '' '') text)"

text \<open>
  Lines 40 to 44: the loop over the words, each substitution working on the text the
  previous ones have left.
\<close>

definition wrap_words :: "string list \<Rightarrow> string \<Rightarrow> string" where
  "wrap_words ws text =
     foldl (\<lambda>text word. if length word > 4 then re_sub_word word text else text) text ws"

text \<open>
  The loop runs over \<^verbatim>\<open>set(...)\<close> of the tokens. Python fixes no iteration order for
  a set of strings (it follows the hash values, which are salted per process), so the
  order is a parameter: \<open>set_order\<close> turns the token list into the sequence in which
  the set hands out its elements. A function that can stand for it keeps the elements and
  drops the duplicates.
\<close>

definition iteration_order :: "(string list \<Rightarrow> string list) \<Rightarrow> bool" where
  "iteration_order set_order = (\<forall>ts. distinct (set_order ts) \<and> set (set_order ts) = set ts)"

definition reinforce_text :: "(string list \<Rightarrow> string list) \<Rightarrow> string \<Rightarrow> string" where
  "reinforce_text set_order text =
     join '' '' (split (wrap_words (set_order (alpha_tokens text)) text)) @ '' ''"

subsection \<open>Errors\<close>

text \<open>
  The exceptions that can leave \<^verbatim>\<open>process_page\<close>: \<^verbatim>\<open>KeyError\<close> from the lookup
  \<^verbatim>\<open>a_tag.attrib['href']\<close>, \<^verbatim>\<open>ValueError\<close> from \<^verbatim>\<open>urlparse\<close> on a network
  location with ill-formed square brackets, and \<^verbatim>\<open>TypeError\<close> from lxml when an
  attribute is set to \<^verbatim>\<open>None\<close>. \<^verbatim>\<open>ValidationError\<close> is caught on line 114 and is
  no outcome.
\<close>

datatype error = KeyError | TypeError | ValueError

subsection \<open>\<^verbatim>\<open>URLValidator\<close> of Django, as line 111 builds it\<close>

text \<open>
  \<^verbatim>\<open>URLValidator()\<close> is called with no argument, so it keeps the class attribute
  \<^verbatim>\<open>schemes = ['http', 'https', 'ftp', 'ftps']\<close>. (forms.py passes
  \<^verbatim>\<open>schemes=['http', 'https']\<close> for the target URL; helpers.py does not.)
\<close>

definition default_schemes :: "string list" where
  "default_schemes = [''http'', ''https'', ''ftp'', ''ftps'']"

text \<open>
  Calling the validator tests \<^verbatim>\<open>value.split('://')[0].lower() in self.schemes\<close>;
  everything else it checks (the length, the URL pattern of the class, the IPv6 literal,
  the host name) is the parameter \<open>url_pattern\<close>, written out further down as
  \<open>django_url_regex\<close>. The result \<open>True\<close> stands for a normal return, \<open>False\<close>
  for \<^verbatim>\<open>ValidationError\<close>, the only exception the validator raises.
\<close>

definition URLValidator :: "(string \<Rightarrow> bool) \<Rightarrow> string list \<Rightarrow> string \<Rightarrow> bool" where
  "URLValidator url_pattern schemes value =
     (lower (before_sep ''://'' value) \<in> set schemes \<and> url_pattern value)"

subsection \<open>The module \<^verbatim>\<open>ipaddress\<close>\<close>

text \<open>
  \<^verbatim>\<open>urlparse\<close> checks a host between square brackets with
  \<^verbatim>\<open>ipaddress.ip_address\<close>, and the validator checks an IPv6 literal with
  \<^verbatim>\<open>ipaddress.IPv6Address\<close> (CPython 3.11). The constructors are predicates here:
  \<open>True\<close> when the constructor returns, \<open>False\<close> when it raises.
\<close>

definition digit_char :: "char \<Rightarrow> bool" where
  "digit_char c = (let n = codepoint c in 48 \<le> n \<and> n \<le> 57)"

definition hex_digit :: "char \<Rightarrow> bool" where
  "hex_digit c = (let n = codepoint c in
     (48 \<le> n \<and> n \<le> 57) \<or> (65 \<le> n \<and> n \<le> 70) \<or> (97 \<le> n \<and> n \<le> 102))"

text \<open>\<^verbatim>\<open>s.split(sep)\<close> with a separator of one character.\<close>

fun split_on :: "char \<Rightarrow> string \<Rightarrow> string list" where
  "split_on sep [] = [[]]"
| "split_on sep (c # cs) =
     (if c = sep then [] # split_on sep cs
      else (case split_on sep cs of [] \<Rightarrow> [[c]] | x # xs \<Rightarrow> (c # x) # xs))"

definition decimal :: "string \<Rightarrow> nat" where
  "decimal s = foldl (\<lambda>n c. 10 * n + (codepoint c - 48)) 0 s"

text \<open>
  \<^verbatim>\<open>_parse_octet\<close>: one to three ASCII digits, no leading zero unless the octet is
  \<^verbatim>\<open>0\<close>, at most 255. \<^verbatim>\<open>IPv4Address\<close>: four octets between dots.
\<close>

definition parse_octet :: "string \<Rightarrow> bool" where
  "parse_octet s =
     (s \<noteq> [] \<and> list_all digit_char s \<and> length s \<le> 3
      \<and> (s = ''0'' \<or> hd s \<noteq> CHR ''0'') \<and> decimal s \<le> 255)"

definition IPv4Address :: "string \<Rightarrow> bool" where
  "IPv4Address s =
     (CHR ''/'' \<notin> set s \<and> s \<noteq> []
      \<and> (let octets = split_on CHR ''.'' s in length octets = 4 \<and> list_all parse_octet octets))"

text \<open>\<^verbatim>\<open>_parse_hextet\<close>: one to four hexadecimal digits.\<close>

definition parse_hextet :: "string \<Rightarrow> bool" where
  "parse_hextet s = (list_all hex_digit s \<and> length s \<le> 4 \<and> s \<noteq> [])"

text \<open>
  \<^verbatim>\<open>_ip_int_from_string\<close> of the IPv6 classes, on the parts between the colons. There
  are at most nine parts. An empty part that is neither the first nor the last stands for
  \<^verbatim>\<open>::\<close> and may occur once; \<open>parts_hi\<close> parts before it and \<open>parts_lo\<close> parts after
  it are read as hextets, an empty first or last part being allowed only next to it, and
  at least one hextet must be left for it to stand for. Without \<^verbatim>\<open>::\<close> there are
  eight hextets.
\<close>

definition ipv6_parts :: "string list \<Rightarrow> bool" where
  "ipv6_parts parts =
     (length parts \<le> 9
      \<and> (case filter (\<lambda>i. parts ! i = []) [1 ..< length parts - 1] of
            [] \<Rightarrow> length parts = 8 \<and> list_all parse_hextet parts
          | [k] \<Rightarrow>
              (let parts_hi = (if hd parts = [] then k - 1 else k);
                   parts_lo = (if last parts = [] then length parts - k - 2 else length parts - k - 1)
               in (hd parts = [] \<longrightarrow> parts_hi = 0) \<and> (last parts = [] \<longrightarrow> parts_lo = 0)
                  \<and> parts_hi + parts_lo \<le> 7
                  \<and> list_all parse_hextet (take parts_hi parts)
                  \<and> list_all parse_hextet (drop (length parts - parts_lo) parts))
          | _ \<Rightarrow> False))"

text \<open>
  The address has at least three parts. A last part with a dot must be an IPv4 address;
  the code replaces it by the two hextets of its value, which are never empty and never
  longer than four digits, so that \<^verbatim>\<open>0\<close> can stand for each of them here, where only
  the validity is computed.
\<close>

definition ip_int_from_string :: "string \<Rightarrow> bool" where
  "ip_int_from_string s =
     (s \<noteq> []
      \<and> (let parts = split_on CHR '':'' s in
          3 \<le> length parts
          \<and> (if CHR ''.'' \<in> set (last parts)
              then IPv4Address (last parts) \<and> ipv6_parts (butlast parts @ [''0'', ''0''])
              else ipv6_parts parts)))"

text \<open>
  \<^verbatim>\<open>IPv6Address\<close>: no slash; what follows a percent sign is the scope, which must not
  be empty and must not hold another percent sign; the rest is the address.
\<close>

definition IPv6Address :: "string \<Rightarrow> bool" where
  "IPv6Address s =
     (CHR ''/'' \<notin> set s
      \<and> (let addr = takeWhile (\<lambda>c. c \<noteq> CHR ''%'') s; scope_id = drop (length addr + 1) s in
          (CHR ''%'' \<in> set s \<longrightarrow> scope_id \<noteq> [] \<and> CHR ''%'' \<notin> set scope_id)
          \<and> ip_int_from_string addr))"

subsection \<open>\<^verbatim>\<open>schemeful_domain\<close> (helpers.py, lines 50 to 57)\<close>

text \<open>
  \<^verbatim>\<open>urlparse\<close> as CPython 3.11 has it, as far as the scheme and the network location
  go. The URL first loses its leading characters up to U+0020 and every tab, carriage
  return and newline.
\<close>

definition url_strip :: "string \<Rightarrow> string" where
  "url_strip url =
     filter (\<lambda>c. c \<noteq> CHR 0x09 \<and> c \<noteq> CHR 0x0D \<and> c \<noteq> CHR 0x0A)
       (dropWhile (\<lambda>c. codepoint c \<le> 32) url)"

text \<open>
  The scheme is the text before the first colon when that text starts with an ASCII
  letter and consists of letters, digits, plus, minus and dot; it is put in lower case.
  The network location is what follows a leading \<^verbatim>\<open>//\<close> of the rest, up to the first
  slash, question mark or hash.
\<close>

definition scheme_char :: "char \<Rightarrow> bool" where
  "scheme_char c = (let n = codepoint c in
     (97 \<le> n \<and> n \<le> 122) \<or> (65 \<le> n \<and> n \<le> 90) \<or> (48 \<le> n \<and> n \<le> 57)
     \<or> c = CHR ''+'' \<or> c = CHR ''-'' \<or> c = CHR ''.'')"

definition ascii_letter :: "char \<Rightarrow> bool" where
  "ascii_letter c = (let n = codepoint c in (97 \<le> n \<and> n \<le> 122) \<or> (65 \<le> n \<and> n \<le> 90))"

definition split_scheme :: "string \<Rightarrow> string \<times> string" where
  "split_scheme url =
     (let pre = takeWhile (\<lambda>c. c \<noteq> CHR '':'') url in
      if length pre < length url \<and> pre \<noteq> [] \<and> ascii_letter (hd pre) \<and> list_all scheme_char pre
      then (lower pre, drop (length pre + 1) url)
      else ([], url))"

definition split_netloc :: "string \<Rightarrow> string" where
  "split_netloc rest =
     (if take 2 rest = ''//''
      then takeWhile (\<lambda>c. c \<noteq> CHR ''/'' \<and> c \<noteq> CHR ''?'' \<and> c \<noteq> CHR ''#'') (drop 2 rest)
      else [])"

text \<open>
  \<^verbatim>\<open>netloc.partition('[')[2].partition(']')[0]\<close>, the text between the first opening
  bracket and the next closing one. \<^verbatim>\<open>_check_bracketed_host\<close> accepts it when it starts
  with \<^verbatim>\<open>v\<close> and matches \<^verbatim>\<open>v[a-fA-F0-9]+\..+\<close>, or when \<^verbatim>\<open>ip_address\<close> makes an
  IPv6 address of it (\<^verbatim>\<open>ip_address\<close> tries IPv4 first, and an IPv4 address between
  brackets is refused).
\<close>

definition bracketed_host :: "string \<Rightarrow> string" where
  "bracketed_host netloc =
     takeWhile (\<lambda>c. c \<noteq> CHR '']'') (drop 1 (dropWhile (\<lambda>c. c \<noteq> CHR ''['') netloc))"

definition check_bracketed_host :: "string \<Rightarrow> bool" where
  "check_bracketed_host host =
     (if take 1 host = ''v''
      then (let digits = takeWhile hex_digit (drop 1 host);
                rest = drop (length digits) (drop 1 host)
            in digits \<noteq> [] \<and> take 1 rest = ''.'' \<and> drop 1 rest \<noteq> []
               \<and> CHR 0x0A \<notin> set (drop 1 rest))
      else \<not> IPv4Address host \<and> IPv6Address host)"

text \<open>
  \<^verbatim>\<open>urlsplit\<close> raises \<^verbatim>\<open>ValueError\<close> when the network location has one kind of
  square bracket without the other, or a bracketed host that the check refuses. Its last
  check, of the characters that NFKC normalisation turns into a delimiter, never fires
  below U+0100. The result holds the scheme and the network location; the other
  components are not used by the program.
\<close>

definition urlsplit :: "string \<Rightarrow> error + string \<times> string" where
  "urlsplit url =
     (let (scheme, rest) = split_scheme (url_strip url); netloc = split_netloc rest in
      if (CHR ''['' \<in> set netloc) \<noteq> (CHR '']'' \<in> set netloc) then Inl ValueError
      else if CHR ''['' \<in> set netloc \<and> \<not> check_bracketed_host (bracketed_host netloc)
      then Inl ValueError
      else Inr (scheme, netloc))"

definition schemeful_domain :: "string \<Rightarrow> error + string" where
  "schemeful_domain target_url =
     (case urlsplit target_url of
        Inl e \<Rightarrow> Inl e
      | Inr (scheme, netloc) \<Rightarrow> Inr (scheme @ ''://'' @ netloc @ ''/''))"

text \<open>
  The attribute \<^verbatim>\<open>hostname\<close> of the result, before it is put in lower case: of what
  follows the last \<^verbatim>\<open>@\<close> of the network location, the text between the brackets when
  there is an opening bracket, the text before the first colon otherwise. An empty host
  name is \<^verbatim>\<open>None\<close> in Python.
\<close>

definition hostname :: "string \<Rightarrow> string" where
  "hostname netloc =
     (let hostinfo = rev (takeWhile (\<lambda>c. c \<noteq> CHR ''@'') (rev netloc)) in
      if CHR ''['' \<in> set hostinfo then bracketed_host hostinfo
      else takeWhile (\<lambda>c. c \<noteq> CHR '':'') hostinfo)"

subsection \<open>What the validator checks after the scheme\<close>

text \<open>
  The second stage of \<^verbatim>\<open>URLValidator.__call__\<close>, written out as current releases of
  Django have it on CPython 3.11, for values below U+0100. Older releases match the
  pattern a second time, on the IDNA form of the network location, when the first match
  fails; that second attempt is not part of this definition.

  The pattern of the class is
  \<^verbatim>\<open>scheme://(user(:password)?@)?host(:port)?(path)?\<close>, matched against the whole
  value without regard to letter case. A label of a host name has 1 to 63 characters
  that are letters, digits, hyphens or characters from U+00A1 on, and neither starts nor
  ends with a hyphen; the last label has no digit and at least two characters, or is a
  punycode label.
\<close>

definition label_char :: "char \<Rightarrow> bool" where
  "label_char c = (ascii_letter c \<or> digit_char c \<or> c = CHR ''-'' \<or> 161 \<le> codepoint c)"

definition tld_char :: "char \<Rightarrow> bool" where
  "tld_char c = (ascii_letter c \<or> c = CHR ''-'' \<or> 161 \<le> codepoint c)"

definition host_label :: "string \<Rightarrow> bool" where
  "host_label l =
     (l \<noteq> [] \<and> length l \<le> 63 \<and> list_all label_char l \<and> hd l \<noteq> CHR ''-'' \<and> last l \<noteq> CHR ''-'')"

definition tld_label :: "string \<Rightarrow> bool" where
  "tld_label l =
     (l \<noteq> [] \<and> hd l \<noteq> CHR ''-'' \<and> last l \<noteq> CHR ''-''
      \<and> ((2 \<le> length l \<and> length l \<le> 63 \<and> list_all tld_char l)
         \<or> (lower (take 4 l) = ''xn--'' \<and> 5 \<le> length l \<and> length l \<le> 63
            \<and> list_all (\<lambda>c. ascii_letter c \<or> digit_char c) (drop 4 l))))"

text \<open>
  A host name: at least two labels between dots, the last one a top-level label, and
  possibly one dot after it.
\<close>

definition domain_name :: "string \<Rightarrow> bool" where
  "domain_name host =
     (let ls = split_on CHR ''.'' host;
          ls = (if last ls = [] then butlast ls else ls)
      in 2 \<le> length ls \<and> list_all host_label (butlast ls) \<and> tld_label (last ls))"

text \<open>
  The IPv4 alternative of the pattern: four numbers from 0 to 255 without leading zeros.
\<close>

definition ipv4 :: "string \<Rightarrow> bool" where
  "ipv4 host = (let ps = split_on CHR ''.'' host in length ps = 4 \<and> list_all parse_octet ps)"

text \<open>
  User information is a name without whitespace, colon, \<^verbatim>\<open>@\<close> and slash, of at least
  one character, and possibly a colon and a password of such characters.
\<close>

definition userinfo_char :: "char \<Rightarrow> bool" where
  "userinfo_char c = (\<not> isspace c \<and> c \<noteq> CHR '':'' \<and> c \<noteq> CHR ''@'' \<and> c \<noteq> CHR ''/'')"

definition userinfo :: "string \<Rightarrow> bool" where
  "userinfo u =
     (let user = takeWhile (\<lambda>c. c \<noteq> CHR '':'') u; password = drop (length user + 1) u in
      user \<noteq> [] \<and> list_all userinfo_char user \<and> list_all userinfo_char password)"

text \<open>
  The path starts with a slash, a question mark or a hash and holds no whitespace; the
  port is a colon and one to five digits.
\<close>

definition path_part :: "string \<Rightarrow> bool" where
  "path_part p =
     (p = [] \<or> ((hd p = CHR ''/'' \<or> hd p = CHR ''?'' \<or> hd p = CHR ''#'')
                 \<and> list_all (\<lambda>c. \<not> isspace c) (tl p)))"

definition port_path :: "string \<Rightarrow> bool" where
  "port_path q =
     (if take 1 q = '':''
      then (let digits = takeWhile digit_char (drop 1 q) in
            1 \<le> length digits \<and> length digits \<le> 5 \<and> path_part (drop (length digits + 1) q))
      else path_part q)"

text \<open>
  The host is an IPv6 literal, hexadecimal digits, colons and dots between square
  brackets, or it ends before the first colon, slash, question mark or hash and is an
  IPv4 address, a host name or \<^verbatim>\<open>localhost\<close>.
\<close>

definition host_port_path :: "string \<Rightarrow> bool" where
  "host_port_path r =
     (if take 1 r = ''[''
      then (let body = takeWhile (\<lambda>c. c \<noteq> CHR '']'') (drop 1 r) in
            length body + 1 < length r \<and> body \<noteq> []
            \<and> list_all (\<lambda>c. hex_digit c \<or> c = CHR '':'' \<or> c = CHR ''.'') body
            \<and> port_path (drop (length body + 2) r))
      else (let host = takeWhile (\<lambda>c. c \<noteq> CHR '':'' \<and> c \<noteq> CHR ''/'' \<and> c \<noteq> CHR ''?'' \<and> c \<noteq> CHR ''#'') r in
            (ipv4 host \<or> domain_name host \<or> lower host = ''localhost'')
            \<and> port_path (drop (length host) r)))"

text \<open>
  The whole pattern. The scheme part is any run of scheme characters before \<^verbatim>\<open>://\<close>.
  User information holds no \<^verbatim>\<open>@\<close>, so it can only be the text before the first
  \<^verbatim>\<open>@\<close>; the value matches with it or without it.
\<close>

definition url_regex :: "string \<Rightarrow> bool" where
  "url_regex v =
     (let scheme = before_sep ''://'' v; r = drop (length scheme + 3) v;
          u = takeWhile (\<lambda>c. c \<noteq> CHR ''@'') r
      in take 3 (drop (length scheme) v) = ''://'' \<and> list_all scheme_char scheme
         \<and> (host_port_path r
            \<or> (length u < length r \<and> userinfo u \<and> host_port_path (drop (length u + 1) r))))"

text \<open>
  After the match the validator searches the network location for
  \<^verbatim>\<open>^\[(.+)\](?::[0-9]{1,5})?$\<close>: an opening bracket, at least one character, a closing
  bracket and possibly a port. The group is the result here. It must be an IPv6 address
  of at most 39 characters.
\<close>

definition netloc_literal :: "string \<Rightarrow> string option" where
  "netloc_literal netloc =
     (let digits = rev (takeWhile digit_char (rev netloc));
          body = (if netloc \<noteq> [] \<and> last netloc = CHR '']'' then Some netloc
                  else if 1 \<le> length digits \<and> length digits \<le> 5
                          \<and> length digits < length netloc
                          \<and> netloc ! (length netloc - length digits - 1) = CHR '':''
                       then Some (take (length netloc - length digits - 1) netloc)
                       else None)
      in case body of
           None \<Rightarrow> None
         | Some b \<Rightarrow>
             if take 1 b = ''['' \<and> b \<noteq> [] \<and> last b = CHR '']'' \<and> 3 \<le> length b
                \<and> CHR 0x0A \<notin> set b
             then Some (butlast (drop 1 b)) else None)"

definition is_valid_ipv6_address :: "string \<Rightarrow> bool" where
  "is_valid_ipv6_address s = (length s \<le> 39 \<and> IPv6Address s)"

text \<open>
  The checks of \<^verbatim>\<open>__call__\<close> besides the scheme: at most 2048 characters; no tab,
  carriage return or newline; \<^verbatim>\<open>urlsplit\<close> does not raise; the pattern matches; an
  IPv6 literal is an address; the host name is not empty and has at most 253
  characters. Each failure is the same \<^verbatim>\<open>ValidationError\<close>, so their order plays no
  role. The name is that of the pattern, which does most of the work.
\<close>

definition django_url_regex :: "string \<Rightarrow> bool" where
  "django_url_regex v =
     (length v \<le> 2048
      \<and> list_all (\<lambda>c. c \<noteq> CHR 0x09 \<and> c \<noteq> CHR 0x0D \<and> c \<noteq> CHR 0x0A) v
      \<and> (case urlsplit v of
            Inl e \<Rightarrow> False
          | Inr (scheme, netloc) \<Rightarrow>
              url_regex v
              \<and> (case netloc_literal netloc of None \<Rightarrow> True | Some ip \<Rightarrow> is_valid_ipv6_address ip)
              \<and> hostname netloc \<noteq> [] \<and> length (hostname netloc) \<le> 253))"

subsection \<open>The element tree of lxml\<close>

text \<open>
  An element has a tag, attributes (a dictionary; the order is the order of the
  document, which serialisation follows), the text before its first child, its children,
  and the tail: the text between its end tag and the next sibling. Text and tail are
  \<^verbatim>\<open>None\<close> when absent. The tail belongs to the element, not to its parent.
\<close>

datatype element =
  Element (tag: string) (attrib: "(string \<times> string) list") (etext: "string option")
    (children: "element list") (tail: "string option")


text \<open>What a text or tail slot contributes to the document.\<close>

definition slot_text :: "string option \<Rightarrow> string" where
  "slot_text x = (case x of None \<Rightarrow> [] | Some s \<Rightarrow> s)"

text \<open>
  The text of a list of siblings as a reader sees it: for each element its text, the
  text of its children, and its tail.
\<close>

fun text_stream :: "element list \<Rightarrow> string" where
  "text_stream [] = []"
| "text_stream (Element tg at tx ch ta # rest) =
     slot_text tx @ text_stream ch @ slot_text ta @ text_stream rest"


subsection \<open>\<^verbatim>\<open>process_page\<close> (helpers.py, lines 83 to 134)\<close>

text \<open>
  Lines 109 to 116, on the attributes of one anchor. The lookup of \<^verbatim>\<open>'href'\<close> on line
  112 stands inside the \<^verbatim>\<open>try\<close>, but only \<^verbatim>\<open>ValidationError\<close> is caught, so a
  missing key leaves the function as \<^verbatim>\<open>KeyError\<close>. Assigning to an existing key keeps
  its position.
\<close>

definition fix_href ::
  "(string \<Rightarrow> bool) \<Rightarrow> string \<Rightarrow> (string \<times> string) list \<Rightarrow> error + (string \<times> string) list" where
  "fix_href url_pattern target_url attrs =
     (case map_of attrs ''href'' of
        None \<Rightarrow> Inl KeyError
      | Some href \<Rightarrow>
          if URLValidator url_pattern default_schemes href then Inr attrs
          else (case schemeful_domain target_url of
                  Inl e \<Rightarrow> Inl e
                | Inr root \<Rightarrow>
                    (case absolutize_url root href of
                       None \<Rightarrow> Inl TypeError
                     | Some url \<Rightarrow> Inr (AList.update ''href'' url attrs))))"

text \<open>
  The loop of lines 95 to 120. \<^verbatim>\<open>root.xpath(".//a")\<close> lists the anchors below the
  root (never the root itself) in document order, before anything is changed. One
  iteration touches only its own anchor: with text it moves the text into a new \<^verbatim>\<open>em\<close>
  element put at index 0 and fixes the \<^verbatim>\<open>href\<close>; without text it unlinks the anchor
  from its parent. Document order is the order of a traversal that handles an element
  before its children and the children from left to right, so the loop is the recursion
  below over the list of children of each element, the first exception ending it.

  \<^verbatim>\<open>parent.remove(a_tag)\<close> of lxml unlinks the element with its whole subtree and
  with its tail; nothing of it stays in the tree. The anchors inside a removed anchor are
  still in the list and are still visited (they can still raise), but what is done to them
  is no longer part of the tree.
\<close>

fun fix_anchors :: "(string \<Rightarrow> bool) \<Rightarrow> string \<Rightarrow> element list \<Rightarrow> error + element list" where
  "fix_anchors v t [] = Inr []"
| "fix_anchors v t (Element tg at tx ch ta # rest) =
     (if tg = ''a'' then
        if has_text tx then
          (case fix_href v t at of Inl e \<Rightarrow> Inl e | Inr at' \<Rightarrow>
           case fix_anchors v t ch of Inl e \<Rightarrow> Inl e | Inr ch' \<Rightarrow>
           case fix_anchors v t rest of Inl e \<Rightarrow> Inl e | Inr rest' \<Rightarrow>
             Inr (Element tg at' None (Element ''em'' [] tx [] None # ch') ta # rest'))
        else
          (case fix_anchors v t ch of Inl e \<Rightarrow> Inl e | Inr ch' \<Rightarrow> fix_anchors v t rest)
      else
        (case fix_anchors v t ch of Inl e \<Rightarrow> Inl e | Inr ch' \<Rightarrow>
         case fix_anchors v t rest of Inl e \<Rightarrow> Inl e | Inr rest' \<Rightarrow>
           Inr (Element tg at tx ch' ta # rest')))"

text \<open>
  The loop of lines 124 to 130 over \<^verbatim>\<open>root.iter()\<close>: every element of the tree, the
  root included, has its text and its tail replaced by \<^verbatim>\<open>reinforce_text\<close> of it when
  the slot holds something that is not all whitespace.
\<close>

definition reinforce_slot :: "(string list \<Rightarrow> string list) \<Rightarrow> string option \<Rightarrow> string option" where
  "reinforce_slot set_order x =
     (case x of None \<Rightarrow> None
      | Some s \<Rightarrow> if has_text (Some s) then Some (reinforce_text set_order s) else Some s)"

fun reinforce_tree :: "(string list \<Rightarrow> string list) \<Rightarrow> element \<Rightarrow> element" where
  "reinforce_tree set_order (Element tg at tx ch ta) =
     Element tg at (reinforce_slot set_order tx) (map (reinforce_tree set_order) ch)
       (reinforce_slot set_order ta)"

text \<open>
  Line 134, \<^verbatim>\<open>unescape(etree.tostring(root, method='html').decode())\<close>. The serialiser
  of libxml2 writes the markup characters of texts and attribute values as character
  references and \<^verbatim>\<open>unescape\<close> turns the references back, so the two together write
  texts and ordinary attribute values as they are. The characters of a parsed document
  are XML characters; of these, U+0080 to U+009F come back from \<^verbatim>\<open>unescape\<close> as the
  characters that Windows-1252 has at these places, which are no characters of this
  model: the model writes them unchanged.

  The value of \<^verbatim>\<open>href\<close>, \<^verbatim>\<open>src\<close> and \<^verbatim>\<open>action\<close>, and of \<^verbatim>\<open>name\<close> on an
  anchor, is written as a URI: blanks, tabs and newlines at its start are dropped, and
  every byte of its UTF-8 form that is not an ASCII letter or digit, one of
  \<^verbatim>\<open>-_.!~*'()\<close> or one of \<^verbatim>\<open>@/:=?;#%&,+\<close> becomes a percent escape. The markup
  characters and the carriage return are character references when that happens, and
  come back as themselves.
\<close>

definition uri_attribute :: "string \<Rightarrow> string \<Rightarrow> bool" where
  "uri_attribute tg name =
     (lower name \<in> {''href'', ''action'', ''src''} \<or> (lower name = ''name'' \<and> lower tg = ''a''))"

definition uri_char :: "char \<Rightarrow> bool" where
  "uri_char c =
     (ascii_letter c \<or> digit_char c \<or> c \<in> set ''-_.!~*()@/:=?;#%&,+'' \<or> c = CHR 0x27
      \<or> c = CHR 0x22 \<or> c = CHR ''<'' \<or> c = CHR ''>'' \<or> c = CHR 0x0D)"

definition hex_char :: "nat \<Rightarrow> char" where
  "hex_char n = ''0123456789ABCDEF'' ! n"

definition percent :: "nat \<Rightarrow> string" where
  "percent byte = [CHR ''%'', hex_char (byte div 16), hex_char (byte mod 16)]"

definition uri_escape_char :: "char \<Rightarrow> string" where
  "uri_escape_char c =
     (let n = codepoint c in
      if uri_char c then [c]
      else if n < 128 then percent n
      else percent (192 + n div 64) @ percent (128 + n mod 64))"

definition uri_escape :: "string \<Rightarrow> string" where
  "uri_escape v =
     concat (map uri_escape_char
       (dropWhile (\<lambda>c. c = CHR '' '' \<or> c = CHR 0x09 \<or> c = CHR 0x0A) v))"

text \<open>An attribute that HTML knows as boolean is written without a value.\<close>

definition boolean_attribute :: "string \<Rightarrow> bool" where
  "boolean_attribute name =
     (lower name \<in> {''checked'', ''compact'', ''declare'', ''defer'', ''disabled'', ''ismap'',
        ''multiple'', ''nohref'', ''noresize'', ''noshade'', ''nowrap'', ''readonly'', ''selected''})"

definition attribute_text :: "string \<Rightarrow> string \<times> string \<Rightarrow> string" where
  "attribute_text tg kv =
     '' '' @ fst kv
     @ (if boolean_attribute (fst kv) then []
        else ''='' @ [CHR 0x22]
          @ (if uri_attribute tg (fst kv) then uri_escape (snd kv) else snd kv) @ [CHR 0x22])"

text \<open>
  The model is that of elements with a start and an end tag; the HTML elements that
  libxml2 writes without end tag (\<^verbatim>\<open>br\<close>, \<^verbatim>\<open>img\<close> and the like) do not occur in a
  sterile page.
\<close>

fun tostring :: "element \<Rightarrow> string" where
  "tostring (Element tg at tx ch ta) =
     ''<'' @ tg @ concat (map (attribute_text tg) at) @ ''>'' @ slot_text tx
     @ concat (map tostring ch) @ ''</'' @ tg @ ''>'' @ slot_text ta"

text \<open>
  The whole function, from the tree that \<^verbatim>\<open>etree.fromstring(sterile_page)\<close> returns
  on line 92.
\<close>

definition process_page ::
  "(string \<Rightarrow> bool) \<Rightarrow> (string list \<Rightarrow> string list) \<Rightarrow> element \<Rightarrow> string \<Rightarrow> error + string" where
  "process_page url_pattern set_order root target_url =
     (case fix_anchors url_pattern target_url (children root) of
        Inl e \<Rightarrow> Inl e
      | Inr ch \<Rightarrow>
          Inr (tostring (reinforce_tree set_order
                 (Element (tag root) (attrib root) (etext root) ch (tail root)))))"

subsection \<open>\<^verbatim>\<open>sterilize_page\<close> (helpers.py, lines 60 to 80)\<close>

text \<open>
  \<^verbatim>\<open>sterilize_page\<close> replaces newlines, carriage returns and tabs by blanks, lets
  \<^verbatim>\<open>cleaner.clean_html\<close> parse the source, clean the document and write it back, and
  collapses the whitespace of the result. What survives is decided by the cleaning of the
  parsed document, which is modelled here on the element tree; parsing and writing are
  not.

  The cleaner is built on lines 72 to 78 with \<^verbatim>\<open>style=True\<close>, \<^verbatim>\<open>allow_tags=['a']\<close>,
  \<^verbatim>\<open>remove_unknown_tags=False\<close>, \<^verbatim>\<open>safe_attrs_only=True\<close> and
  \<^verbatim>\<open>safe_attrs=['href']\<close>; every other option keeps the default of lxml, and the
  defaults \<^verbatim>\<open>scripts\<close>, \<^verbatim>\<open>links\<close>, \<^verbatim>\<open>meta\<close>, \<^verbatim>\<open>embedded\<close>, \<^verbatim>\<open>frames\<close> and
  \<^verbatim>\<open>forms\<close> are all on. The cleaner collects the tags to kill from these options: an
  element with one of them is dropped with all it contains (\<^verbatim>\<open>drop_tree\<close>), only its
  tail staying in the text.
\<close>

definition kill_tags :: "string list" where
  "kill_tags = [''script'', ''style'', ''link'', ''meta'', ''applet'', ''frameset'', ''frame'',
     ''noframes'', ''button'', ''input'', ''select'', ''textarea'']"

text \<open>
  With \<^verbatim>\<open>javascript\<close> on (the default) every \<^verbatim>\<open>href\<close> is passed through
  \<^verbatim>\<open>rewrite_links\<close>: the value is stripped, and replaced by the empty string when the
  cleaner takes it for a script link. That test is the parameter \<open>js\<close> of the cleaning.
  \<open>javascript_scheme\<close> writes it out as current releases of lxml have it, for values
  without percent escapes (the test works on the value with its escapes decoded). A plus
  sign counts as a blank. Whitespace and most control characters are removed. The value
  is a script link when it names more of the schemes below, each followed by a colon,
  than it holds image data: the pattern \<^verbatim>\<open>data:image/(.+);base64,\<close> is searched
  without regard to letter case, its group reaching from the first \<^verbatim>\<open>data:image/\<close>
  to the last \<^verbatim>\<open>;base64,\<close>, so it is found at most once; an image type with
  \<^verbatim>\<open>xml\<close> or \<^verbatim>\<open>svg\<close> in it makes a script link at once.
\<close>

fun contains :: "string \<Rightarrow> string \<Rightarrow> bool" where
  "contains sub [] = (sub = [])"
| "contains sub (c # cs) = (prefix sub (c # cs) \<or> contains sub cs)"

fun occurrences :: "string \<Rightarrow> string \<Rightarrow> nat" where
  "occurrences sub [] = 0"
| "occurrences sub (c # cs) = (if prefix sub (c # cs) then 1 else 0) + occurrences sub cs"

fun after_first :: "string \<Rightarrow> string \<Rightarrow> string option" where
  "after_first sub [] = None"
| "after_first sub (c # cs) =
     (if prefix sub (c # cs) then Some (drop (length sub) (c # cs)) else after_first sub cs)"

definition image_type :: "string \<Rightarrow> string option" where
  "image_type s =
     (case after_first ''data:image/'' s of
        None \<Rightarrow> None
      | Some r \<Rightarrow>
          (case after_first (rev '';base64,'') (rev r) of
             None \<Rightarrow> None
           | Some t \<Rightarrow> if t = [] then None else Some (rev t)))"

definition substitute_whitespace :: "string \<Rightarrow> string" where
  "substitute_whitespace s =
     filter (\<lambda>c. \<not> (isspace c \<or> codepoint c \<le> 8 \<or> (14 \<le> codepoint c \<and> codepoint c \<le> 25))) s"

definition javascript_scheme :: "string \<Rightarrow> bool" where
  "javascript_scheme link =
     (let s = lower (substitute_whitespace (map (\<lambda>c. if c = CHR ''+'' then CHR '' '' else c) link));
          malicious = sum_list (map (\<lambda>name. occurrences (name @ '':'') s)
            [''javascript'', ''jscript'', ''livescript'', ''vbscript'', ''data'', ''about'', ''mocha''])
      in case image_type s of
           None \<Rightarrow> 0 < malicious
         | Some t \<Rightarrow> contains ''xml'' t \<or> contains ''svg'' t \<or> 1 < malicious)"

text \<open>
  \<^verbatim>\<open>safe_attrs_only\<close> deletes every attribute whose name is not \<^verbatim>\<open>href\<close>, on every
  element.
\<close>

definition clean_attrib :: "(string \<Rightarrow> bool) \<Rightarrow> (string \<times> string) list \<Rightarrow> (string \<times> string) list" where
  "clean_attrib js at =
     map (\<lambda>kv. (fst kv, if js (strip (snd kv)) then [] else strip (snd kv)))
       (filter (\<lambda>kv. fst kv = ''href'') at)"

text \<open>
  A text slot that holds nothing is \<^verbatim>\<open>None\<close> once the sterile page is parsed again.
\<close>

definition text_slot :: "string \<Rightarrow> string option" where
  "text_slot s = (if s = [] then None else Some s)"

definition add_tail :: "string \<Rightarrow> element \<Rightarrow> element" where
  "add_tail s e = Element (tag e) (attrib e) (etext e) (children e) (text_slot (slot_text (tail e) @ s))"

text \<open>
  The cleaning of a list of siblings. An element that is not killed and is no anchor is
  not in \<^verbatim>\<open>allow_tags\<close>: \<^verbatim>\<open>drop_tag\<close> puts its text, its children and its tail in
  its place, the text and the tail joining the tail of the element before them, or the
  text of the parent when there is none. The result is the text that ends up before the
  first surviving element, and the surviving elements with what has joined their tails.
\<close>

fun clean_siblings :: "(string \<Rightarrow> bool) \<Rightarrow> element list \<Rightarrow> string \<times> element list" where
  "clean_siblings js [] = ([], [])"
| "clean_siblings js (Element tg at tx ch ta # rest) =
     (case clean_siblings js rest of (rt, rs) \<Rightarrow>
      if tg \<in> set kill_tags then (slot_text ta @ rt, rs)
      else (case clean_siblings js ch of (ct, cs) \<Rightarrow>
        if tg = ''a''
        then ([], Element ''a'' (clean_attrib js at) (text_slot (slot_text tx @ ct)) cs
                   (text_slot (slot_text ta @ rt)) # rs)
        else if cs = [] then (slot_text tx @ ct @ slot_text ta @ rt, rs)
        else (slot_text tx @ ct, butlast cs @ add_tail (slot_text ta @ rt) (last cs) # rs)))"

text \<open>
  The root cannot be dropped: a root with a tag to kill is renamed \<^verbatim>\<open>div\<close> and
  cleared, any other root that is no anchor is renamed \<^verbatim>\<open>div\<close> and loses its
  attributes.
\<close>

definition clean_html :: "(string \<Rightarrow> bool) \<Rightarrow> element \<Rightarrow> element" where
  "clean_html js doc =
     (if tag doc \<in> set kill_tags then Element ''div'' [] None [] None
      else case clean_siblings js (children doc) of (ct, cs) \<Rightarrow>
        Element (if tag doc = ''a'' then ''a'' else ''div'')
          (if tag doc = ''a'' then clean_attrib js (attrib doc) else [])
          (text_slot (slot_text (etext doc) @ ct)) cs (tail doc))"

text \<open>Every element of the list, at any depth, is an anchor with no attribute but \<^verbatim>\<open>href\<close>.\<close>

fun only_anchors :: "element list \<Rightarrow> bool" where
  "only_anchors [] = True"
| "only_anchors (Element tg at tx ch ta # rest) =
     (tg = ''a'' \<and> list_all (\<lambda>kv. fst kv = ''href'') at \<and> only_anchors ch \<and> only_anchors rest)"

text \<open>
  The text of a list of siblings without what stands inside the elements the cleaner
  kills.
\<close>

fun visible_text :: "element list \<Rightarrow> string" where
  "visible_text [] = []"
| "visible_text (Element tg at tx ch ta # rest) =
     (if tg \<in> set kill_tags then [] else slot_text tx @ visible_text ch)
     @ slot_text ta @ visible_text rest"

text \<open>
  The text that the specification keeps: the text of a list of siblings without what
  stands inside \<^verbatim>\<open>script\<close> and \<^verbatim>\<open>style\<close> elements, and only those.
\<close>

fun retained_text_spec :: "element list \<Rightarrow> string" where
  "retained_text_spec [] = []"
| "retained_text_spec (Element tg at tx ch ta # rest) =
     (if tg = ''script'' \<or> tg = ''style'' then [] else slot_text tx @ retained_text_spec ch)
     @ slot_text ta @ retained_text_spec rest"

subsection \<open>The wrapping as the specification words it\<close>

text \<open>
  A second iteration order, to set against \<open>remdups\<close>: the same words, the other way
  round.
\<close>

definition reversed_order :: "string list \<Rightarrow> string list" where
  "reversed_order ts = rev (remdups ts)"

text \<open>
  The specification describes the wrapping step by its result, not by the loop: every
  distinct token of letters that is longer than four characters is wrapped at each of
  its whole-word occurrences in the original text, and nothing else changes. That is one
  pass over the original text: at a position where one of the long tokens stands between
  two word boundaries, the wrapped token is written and the pass goes on behind it;
  elsewhere one character is copied. \<open>emphasize_spec\<close> then normalises the whitespace
  as the function does.
\<close>

definition long_tokens :: "string \<Rightarrow> string list" where
  "long_tokens t = filter (\<lambda>w. 4 < length w) (remdups (alpha_tokens t))"

function wrap_occurrences :: "string list \<Rightarrow> char option \<Rightarrow> string \<Rightarrow> string" where
  "wrap_occurrences ws prev s =
     (if s = [] then []
      else case find (\<lambda>w. match_here w prev s) ws of
             Some w \<Rightarrow>
               ''<strong>'' @ w @ ''</strong>''
               @ wrap_occurrences ws (Some (last w)) (drop (length w) s)
           | None \<Rightarrow> hd s # wrap_occurrences ws (Some (hd s)) (tl s))"
  by pat_completeness auto
termination
proof (relation "measure (\<lambda>(ws, prev, s). length s)")
  fix ws :: "string list" and prev s w
  assume "s \<noteq> []" "find (\<lambda>w. match_here w prev s) ws = Some w"
  then have "match_here w prev s" by (auto simp: find_Some_iff)
  then have "w \<noteq> []" by (simp add: match_here_def)
  then show "((ws, Some (last w), drop (length w) s), ws, prev, s)
      \<in> measure (\<lambda>(ws, prev, s). length s)"
    using \<open>s \<noteq> []\<close> by simp
qed auto

declare wrap_occurrences.simps [simp del]

definition emphasize_spec :: "string \<Rightarrow> string" where
  "emphasize_spec t = join '' '' (split (wrap_occurrences (long_tokens t) None t)) @ '' ''"

text \<open>The tree for \<^verbatim>\<open><div>strong words</div>\<close>.\<close>

definition c9_input :: element where
  "c9_input = Element ''div'' [] (Some ''strong words'') [] None"

subsection \<open>Inputs of the examples\<close>


text \<open>
  The tree for \<^verbatim>\<open><div><a href="#">Somewhere</a> over the rainbow</div>\<close>.
\<close>

definition c5_input :: element where
  "c5_input =
     Element ''div'' [] None
       [Element ''a'' [(''href'', ''#'')] (Some ''Somewhere'') [] (Some '' over the rainbow'')]
       None"

text \<open>
  The same page with nothing in the anchor,
  \<^verbatim>\<open><div><a href="#"></a> over the rainbow</div>\<close>.
\<close>

definition c5_empty :: element where
  "c5_empty =
     Element ''div'' [] None
       [Element ''a'' [(''href'', ''#'')] None [] (Some '' over the rainbow'')]
       None"

text \<open>
  The tree for \<^verbatim>\<open><div>An empty link <a href=""></a>followed by words</div>\<close>.
\<close>

definition c1_input :: element where
  "c1_input =
     Element ''div'' [] (Some ''An empty link '')
       [Element ''a'' [(''href'', '''')] None [] (Some ''followed by words'')]
       None"



text \<open>
  The document for
  \<^verbatim>\<open><div class="box">Say <button>Click</button> now <b>or</b> <a href="/x" onclick="f()">go</a><script>f()</script></div>\<close>.
\<close>

definition c7_input :: element where
  "c7_input =
     Element ''div'' [(''class'', ''box'')] (Some ''Say '')
       [Element ''button'' [] (Some ''Click'') [] (Some '' now '' ),
        Element ''b'' [] (Some ''or'') [] (Some '' '' ),
        Element ''a'' [(''href'', ''/x''), (''onclick'', ''f()'')] (Some ''go'') [] None,
        Element ''script'' [] (Some ''f()'') [] None]
       None"


text \<open>Two neighbouring whitespace characters somewhere in a string.\<close>

fun adjacent_spaces :: "string \<Rightarrow> bool" where
  "adjacent_spaces (a # b # cs) = ((isspace a \<and> isspace b) \<or> adjacent_spaces (b # cs))"
| "adjacent_spaces _ = False"

section \<open>Properties\<close>

text \<open>
  C6. When exactly one of "address ends with a slash" and "path starts with a slash"
  holds, the result is the plain concatenation; when both hold, the leading slash of the
  path is dropped before concatenating; when neither holds the call still returns (the
  value None, no exception). The three documented examples evaluate as stated.
\<close>

theorem absolutize_url_cases:
  "(endswith_slash root \<noteq> startswith_slash path \<longrightarrow>
      absolutize_url root path = Some (root @ path))
   \<and> (endswith_slash root \<and> startswith_slash path \<longrightarrow>
      absolutize_url root path = Some (root @ tl path))
   \<and> (\<not> endswith_slash root \<and> \<not> startswith_slash path \<longrightarrow>
      absolutize_url root path = None)
   \<and> absolutize_url ''https://google.com/'' ''chrome/browser/desktop/index.html''
       = Some ''https://google.com/chrome/browser/desktop/index.html''
   \<and> absolutize_url ''https://github.com'' ''/Spacehug'' = Some ''https://github.com/Spacehug''
   \<and> absolutize_url ''https://vk.com/'' ''/id1'' = Some ''https://vk.com/id1''"
  by (simp add: absolutize_url_def endswith_slash_def startswith_slash_def drop_Suc)

theorem absolutize_url_cases_witness:
  "(endswith_slash ''https://google.com/'' \<noteq> startswith_slash ''chrome/x'')
   \<and> absolutize_url ''https://google.com/'' ''chrome/x'' = Some ''https://google.com/chrome/x''
   \<and> (endswith_slash ''https://vk.com/'' \<and> startswith_slash ''/id1'')
   \<and> absolutize_url ''https://vk.com/'' ''/id1'' = Some ''https://vk.com/id1''
   \<and> (\<not> endswith_slash ''https://github.com'' \<and> \<not> startswith_slash ''Spacehug'')
   \<and> absolutize_url ''https://github.com'' ''Spacehug'' = None"
  using absolutize_url_cases [of "''https://google.com/''" "''chrome/x''"]
    absolutize_url_cases [of "''https://vk.com/''" "''/id1''"]
    absolutize_url_cases [of "''https://github.com''" "''Spacehug''"]
  by (simp add: endswith_slash_def startswith_slash_def)

subsection \<open>Whitespace of the result of \<^verbatim>\<open>reinforce_text\<close>\<close>

lemma isspace_blank: "isspace CHR '' ''"
  by (simp add: isspace_def codepoint_def)

lemma takeWhile_all: "\<forall>x\<in>set (takeWhile P xs). P x"
  by (auto dest: set_takeWhileD)

lemma split_items:
  "w \<in> set (split s) \<Longrightarrow> w \<noteq> [] \<and> (\<forall>c\<in>set w. \<not> isspace c)"
proof (induction s rule: split.induct)
  case (1 s)
  show ?case
  proof (cases "dropWhile isspace s")
    case Nil
    with "1.prems" show ?thesis by (simp add: split.simps [of s])
  next
    case (Cons c cs)
    have c: "\<not> isspace c"
      using Cons hd_dropWhile [of isspace s] by simp
    from "1.prems" Cons have "w = takeWhile (\<lambda>x. \<not> isspace x) (c # cs)
        \<or> w \<in> set (split (dropWhile (\<lambda>x. \<not> isspace x) cs))"
      by (simp add: split.simps [of s])
    then show ?thesis
    proof
      assume w: "w = takeWhile (\<lambda>x. \<not> isspace x) (c # cs)"
      have "w \<noteq> []" using c w by simp
      moreover have "\<forall>x\<in>set w. \<not> isspace x"
        using takeWhile_all [of "\<lambda>x. \<not> isspace x" "c # cs"] w by blast
      ultimately show ?thesis by blast
    next
      assume "w \<in> set (split (dropWhile (\<lambda>x. \<not> isspace x) cs))"
      then show ?thesis using "1.IH" [OF Cons] by blast
    qed
  qed
qed

lemma adjacent_spaces_word:
  "\<forall>c\<in>set w. \<not> isspace c \<Longrightarrow> adjacent_spaces (w @ CHR '' '' # r) = adjacent_spaces (CHR '' '' # r)"
proof (induction w)
  case Nil
  then show ?case by simp
next
  case (Cons a w)
  then show ?case by (cases w) auto
qed

lemma adjacent_spaces_blank:
  "adjacent_spaces (CHR '' '' # r) = ((r \<noteq> [] \<and> isspace (hd r)) \<or> adjacent_spaces r)"
  by (cases r) (auto simp: isspace_blank)

lemma join_blank:
  "ws \<noteq> [] \<Longrightarrow> join '' '' ws @ '' '' = concat (map (\<lambda>w. w @ '' '') ws)"
  by (induction "'' ''" ws rule: join.induct) auto

lemma spaced_words:
  "\<forall>w\<in>set ws. w \<noteq> [] \<and> (\<forall>c\<in>set w. \<not> isspace c) \<Longrightarrow>
   \<not> adjacent_spaces (concat (map (\<lambda>w. w @ '' '') ws))"
proof (induction ws)
  case Nil
  then show ?case by simp
next
  case (Cons w ws)
  let ?r = "concat (map (\<lambda>w. w @ '' '') ws)"
  have r: "?r \<noteq> [] \<Longrightarrow> \<not> isspace (hd ?r)"
  proof (cases ws)
    case Nil
    then show "?r \<noteq> [] \<Longrightarrow> \<not> isspace (hd ?r)" by simp
  next
    case (Cons v vs)
    with Cons.prems have "v \<noteq> []" "\<not> isspace (hd v)" by auto
    then show ?thesis using Cons by simp
  qed
  have "adjacent_spaces (w @ CHR '' '' # ?r) = adjacent_spaces (CHR '' '' # ?r)"
    using Cons.prems by (intro adjacent_spaces_word) simp
  then show ?case
    using Cons r by (auto simp: adjacent_spaces_blank)
qed

lemma join_last:
  "ws \<noteq> [] \<Longrightarrow> \<forall>w\<in>set ws. w \<noteq> [] \<Longrightarrow>
   join '' '' ws \<noteq> [] \<and> last (join '' '' ws) = last (last ws)"
  by (induction "'' ''" ws rule: join.induct) auto

lemma normalised:
  assumes "\<forall>w\<in>set ws. w \<noteq> [] \<and> (\<forall>c\<in>set w. \<not> isspace c)"
  shows "\<not> adjacent_spaces (join '' '' ws @ '' '')"
    and "takeWhile isspace (rev (join '' '' ws @ '' '')) = '' ''"
proof -
  show "\<not> adjacent_spaces (join '' '' ws @ '' '')"
  proof (cases ws)
    case Nil
    then show ?thesis by simp
  next
    case Cons
    then show ?thesis using assms join_blank [of ws] spaced_words [of ws] by simp
  qed
  show "takeWhile isspace (rev (join '' '' ws @ '' '')) = '' ''"
  proof (cases ws)
    case Nil
    then show ?thesis by (simp add: isspace_blank)
  next
    case (Cons v vs)
    then have ne: "ws \<noteq> []" by simp
    have "join '' '' ws \<noteq> []" "last (join '' '' ws) = last (last ws)"
      using join_last [OF ne] assms by auto
    moreover have "\<not> isspace (last (last ws))"
      using assms ne by (metis last_in_set)
    ultimately have "\<not> isspace (hd (rev (join '' '' ws)))" "rev (join '' '' ws) \<noteq> []"
      by (simp_all add: hd_rev)
    then show ?thesis
      by (cases "rev (join '' '' ws)") (simp_all add: isspace_blank)
  qed
qed

text \<open>
  C8. Whatever the text and whatever the order in which the words are taken, the result
  of \<^verbatim>\<open>reinforce_text\<close> ends with exactly one whitespace character, a blank (the
  whitespace at its end, read from the right, is the single blank), and no two
  whitespace characters stand next to each other anywhere in it.
\<close>

theorem reinforce_text_whitespace:
  "takeWhile isspace (rev (reinforce_text set_order t)) = '' ''
   \<and> \<not> adjacent_spaces (reinforce_text set_order t)"
  unfolding reinforce_text_def
  using normalised [of "split (wrap_words (set_order (alpha_tokens t)) t)"] split_items
  by blast


subsection \<open>Evaluation of the string functions\<close>

lemma split_Nil: "split [] = []"
  by (simp add: split.simps)

lemma split_Cons:
  "split (c # cs) =
     (if isspace c then split cs
      else takeWhile (\<lambda>x. \<not> isspace x) (c # cs) # split (dropWhile (\<lambda>x. \<not> isspace x) cs))"
  by (subst split.simps, subst (2) split.simps) simp

lemma re_sub_from_Nil: "re_sub_from word repl prev [] = []"
  by (simp add: re_sub_from.simps)

lemma re_sub_from_Cons:
  "re_sub_from word repl prev (c # cs) =
     (if match_here word prev (c # cs)
      then repl @ re_sub_from word repl (Some (last word)) (drop (length word) (c # cs))
      else c # re_sub_from word repl (Some c) cs)"
  by (subst re_sub_from.simps) simp

lemma match_here_if:
  "match_here word prev s =
     (if prefix word s
      then word \<noteq> [] \<and> word_boundary prev (first_char word)
        \<and> word_boundary (Some (last word)) (first_char (drop (length word) s))
      else False)"
  by (auto simp: match_here_def)

lemmas char_class =
  isword_def isalnum_def isalpha_def isnumeric_def isspace_def codepoint_def
  word_boundary_def word_opt_def first_char_def

lemmas string_eval =
  split_Nil split_Cons re_sub_from_Nil re_sub_from_Cons match_here_if char_class
  re_sub_word_def alpha_tokens_def has_text_def strip_def


lemma wrap_words_filter:
  "wrap_words ws t = wrap_words (filter (\<lambda>w. length w > 4) ws) t"
  unfolding wrap_words_def by (induction ws arbitrary: t) auto

lemma distinct_singleton: "distinct xs \<Longrightarrow> set xs = {w} \<Longrightarrow> xs = [w]"
  by (cases xs) (auto simp: subset_singleton_iff dest: subset_singletonD)


lemma reinforce_text_one_long:
  assumes "iteration_order set_order"
    and "set (filter (\<lambda>w. length w > 4) (alpha_tokens t)) = {w}"
  shows "reinforce_text set_order t = join '' '' (split (re_sub_word w t)) @ '' ''"
proof -
  let ?ws = "set_order (alpha_tokens t)"
  have d: "distinct ?ws" and s: "set ?ws = set (alpha_tokens t)"
    using assms(1) by (simp_all add: iteration_order_def)
  have "distinct (filter (\<lambda>w. length w > 4) ?ws)" using d by simp
  moreover have "set (filter (\<lambda>w. length w > 4) ?ws) = {w}"
    using assms(2) s by auto
  ultimately have f: "filter (\<lambda>w. length w > 4) ?ws = [w]"
    by (rule distinct_singleton)
  have "w \<in> set (filter (\<lambda>w. length w > 4) (alpha_tokens t))"
    using assms(2) by simp
  then have lw: "length w > 4" by simp
  have "wrap_words ?ws t = wrap_words [w] t"
    using wrap_words_filter [of ?ws t] f by simp
  also have "\<dots> = re_sub_word w t" using lw by (simp add: wrap_words_def)
  finally show ?thesis by (simp add: reinforce_text_def)
qed

lemma ex_somewhere:
  "iteration_order set_order \<Longrightarrow>
   reinforce_text set_order ''Somewhere'' = ''<strong>Somewhere</strong> ''"
  by (subst reinforce_text_one_long [where w = "''Somewhere''"]) (simp_all add: string_eval)

lemma ex_rainbow:
  "iteration_order set_order \<Longrightarrow>
   reinforce_text set_order '' over the rainbow'' = ''over the <strong>rainbow</strong> ''"
  by (subst reinforce_text_one_long [where w = "''rainbow''"]) (simp_all add: string_eval)












subsection \<open>The examples\<close>

lemmas url_eval =
  fix_href_def URLValidator_def default_schemes_def lower_def lower_char_def codepoint_def
  schemeful_domain_def urlsplit_def url_strip_def split_scheme_def split_netloc_def
  scheme_char_def ascii_letter_def
  absolutize_url_def endswith_slash_def startswith_slash_def

lemmas tree_eval =
  process_page_def reinforce_slot_def slot_text_def attribute_text_def
  boolean_attribute_def uri_attribute_def uri_escape_def uri_escape_char_def uri_char_def
  ascii_letter_def digit_char_def lower_def lower_char_def





lemma c5_anchors:
  "fix_anchors p ''https://google.com/'' (children c5_input) =
     Inr [Element ''a'' [(''href'', ''https://google.com/#'')] None
            [Element ''em'' [] (Some ''Somewhere'') [] None] (Some '' over the rainbow'')]"
  by (simp add: c5_input_def url_eval has_text_def strip_def isspace_def)

lemma c5_example:
  "iteration_order set_order \<Longrightarrow>
   process_page p set_order c5_input ''https://google.com/'' =
     Inr (''<div><a href='' @ [CHR 0x22] @ ''https://google.com/#'' @ [CHR 0x22]
          @ ''><em><strong>Somewhere</strong> </em></a>over the <strong>rainbow</strong> </div>'')"
  by (simp add: process_page_def c5_anchors)
     (simp add: c5_input_def tree_eval has_text_def strip_def isspace_def codepoint_def ex_somewhere ex_rainbow)


lemma iteration_order_remdups: "iteration_order remdups"
  by (simp add: iteration_order_def)


lemmas text_test = has_text_def strip_def isspace_def codepoint_def

lemma ex_empty_link:
  "iteration_order set_order \<Longrightarrow>
   reinforce_text set_order ''An empty link '' = ''An <strong>empty</strong> link ''"
  by (subst reinforce_text_one_long [where w = "''empty''"]) (simp_all add: string_eval)


subsection \<open>Anchors with text\<close>



text \<open>
  C5. The claim is that the tail text following an anchor is preserved and reinforced on
  its own, and that the text moved into the new \<^verbatim>\<open>em\<close> is reinforced in the same
  pass. For the documented input \<^verbatim>\<open><div><a href="#">Somewhere</a> over the rainbow</div>\<close>
  the page is as the claim says. The tail is kept only because that anchor has text:
  for \<^verbatim>\<open><div><a href="#"></a> over the rainbow</div>\<close>, whose text is
  \<^verbatim>\<open> over the rainbow\<close>, line 120 removes the anchor together with its tail and
  the page is \<^verbatim>\<open><div></div>\<close>. The text that follows the anchor is not preserved.
\<close>

theorem tail_kept_only_with_anchor_text:
  "process_page django_url_regex remdups c5_input ''https://google.com/'' =
     Inr (''<div><a href='' @ [CHR 0x22] @ ''https://google.com/#'' @ [CHR 0x22]
          @ ''><em><strong>Somewhere</strong> </em></a>over the <strong>rainbow</strong> </div>'')
   \<and> text_stream [c5_empty] = '' over the rainbow''
   \<and> fix_anchors django_url_regex ''https://google.com/'' (children c5_empty) = Inr []
   \<and> process_page django_url_regex remdups c5_empty ''https://google.com/'' = Inr ''<div></div>''"
  using c5_example [OF iteration_order_remdups, of django_url_regex]
  by (simp add: c5_empty_def tree_eval text_test)

subsection \<open>Anchors without text\<close>

text \<open>
  C1. The claim is that deleting an anchor without text moves its tail to the text before
  it, so that the text of the tree stays the same. \<^verbatim>\<open>parent.remove(a_tag)\<close> takes the
  tail away with the anchor. For \<^verbatim>\<open><div>An empty link <a href=""></a>followed by words</div>\<close>,
  whose text is \<^verbatim>\<open>An empty link followed by words\<close>, nothing is left of the anchor
  after the first loop and the page is \<^verbatim>\<open><div>An <strong>empty</strong> link </div>\<close>:
  the words after the anchor are lost.
\<close>

theorem removed_anchor_takes_its_tail:
  "text_stream [c1_input] = ''An empty link followed by words''
   \<and> fix_anchors django_url_regex ''https://google.com/'' (children c1_input) = Inr []
   \<and> process_page django_url_regex remdups c1_input ''https://google.com/'' =
       Inr ''<div>An <strong>empty</strong> link </div>''"
  by (simp add: c1_input_def process_page_def tree_eval text_test
      ex_empty_link [OF iteration_order_remdups])

subsection \<open>Validation of \<^verbatim>\<open>href\<close>\<close>














subsection \<open>The order of the token set\<close>

lemma iteration_order_reversed: "iteration_order reversed_order"
  by (simp add: iteration_order_def reversed_order_def)

lemma wrap_occurrences_Nil: "wrap_occurrences ws prev [] = []"
  by (simp add: wrap_occurrences.simps)

lemma wrap_occurrences_Cons:
  "wrap_occurrences ws prev (c # cs) =
     (case find (\<lambda>w. match_here w prev (c # cs)) ws of
        Some w \<Rightarrow>
          ''<strong>'' @ w @ ''</strong>''
          @ wrap_occurrences ws (Some (last w)) (drop (length w) (c # cs))
      | None \<Rightarrow> c # wrap_occurrences ws (Some c) cs)"
  by (subst wrap_occurrences.simps) (simp split: option.split)

text \<open>
  C9. The claim is that the result does not depend on the order in which the set of
  tokens is iterated. It does: for the text \<^verbatim>\<open>strong words\<close> the order
  \<^verbatim>\<open>strong, words\<close> gives \<^verbatim>\<open><strong>strong</strong> <strong>words</strong>\<close>, and the
  order \<^verbatim>\<open>words, strong\<close> gives a text in which the substitution of \<^verbatim>\<open>strong\<close> has
  also rewritten the tags that the substitution of \<^verbatim>\<open>words\<close> had put in. Both are
  orders a set can have, and the page differs with them.
\<close>

theorem order_changes_the_result:
  "iteration_order remdups \<and> iteration_order reversed_order
   \<and> reinforce_text remdups ''strong words'' = ''<strong>strong</strong> <strong>words</strong> ''
   \<and> reinforce_text reversed_order ''strong words'' =
       ''<strong>strong</strong> <<strong>strong</strong>>words</<strong>strong</strong>> ''
   \<and> process_page django_url_regex remdups c9_input ''https://google.com/'' =
       Inr ''<div><strong>strong</strong> <strong>words</strong> </div>''
   \<and> process_page django_url_regex reversed_order c9_input ''https://google.com/'' =
       Inr ''<div><strong>strong</strong> <<strong>strong</strong>>words</<strong>strong</strong>> </div>''"
proof -
  have a: "reinforce_text remdups ''strong words'' = ''<strong>strong</strong> <strong>words</strong> ''"
    by (simp add: reinforce_text_def wrap_words_def string_eval)
  have b: "reinforce_text reversed_order ''strong words'' =
       ''<strong>strong</strong> <<strong>strong</strong>>words</<strong>strong</strong>> ''"
    by (simp add: reinforce_text_def wrap_words_def reversed_order_def string_eval)
  show ?thesis
    using a b iteration_order_remdups iteration_order_reversed
    by (simp add: c9_input_def tree_eval text_test)
qed

text \<open>
  C2. The claim is that the wrapping step wraps the long tokens at their whole-word
  occurrences in the original text and changes nothing else. For \<^verbatim>\<open>strong signal\<close>
  that is \<^verbatim>\<open><strong>strong</strong> <strong>signal</strong>\<close>; the loop, taking
  \<^verbatim>\<open>signal\<close> before \<^verbatim>\<open>strong\<close>, also wraps the word \<^verbatim>\<open>strong\<close> inside the two
  tags it has just inserted, positions that are not in the original text.
\<close>

theorem wrapping_reaches_inserted_tags:
  "alpha_tokens ''strong signal'' = [''strong'', ''signal'']
   \<and> emphasize_spec ''strong signal'' = ''<strong>strong</strong> <strong>signal</strong> ''
   \<and> iteration_order reversed_order
   \<and> reinforce_text reversed_order ''strong signal'' =
       ''<strong>strong</strong> <<strong>strong</strong>>signal</<strong>strong</strong>> ''"
proof -
  have a: "alpha_tokens ''strong signal'' = [''strong'', ''signal'']"
    by (simp add: string_eval)
  have b: "emphasize_spec ''strong signal'' = ''<strong>strong</strong> <strong>signal</strong> ''"
    by (simp add: emphasize_spec_def long_tokens_def a)
       (simp add: wrap_occurrences_Nil wrap_occurrences_Cons string_eval)
  have c: "reinforce_text reversed_order ''strong signal'' =
       ''<strong>strong</strong> <<strong>strong</strong>>signal</<strong>strong</strong>> ''"
    by (simp add: reinforce_text_def wrap_words_def reversed_order_def a)
       (simp add: string_eval)
  show ?thesis using a b c iteration_order_reversed by simp
qed


subsection \<open>The cleaner\<close>

lemma only_anchors_append: "only_anchors (xs @ ys) = (only_anchors xs \<and> only_anchors ys)"
  by (induction xs rule: only_anchors.induct) auto

lemma only_anchors_add_tail: "only_anchors (add_tail s e # rs) = only_anchors (e # rs)"
  by (cases e) (simp add: add_tail_def)

lemma only_anchors_last:
  "cs \<noteq> [] \<Longrightarrow> only_anchors (butlast cs @ add_tail s (last cs) # rs) = (only_anchors cs \<and> only_anchors rs)"
proof -
  assume "cs \<noteq> []"
  then have "only_anchors cs = only_anchors (butlast cs @ [last cs])" by simp
  also have "\<dots> = (only_anchors (butlast cs) \<and> only_anchors [last cs])"
    by (rule only_anchors_append)
  finally show ?thesis
    by (cases "last cs") (auto simp: only_anchors_append add_tail_def)
qed

lemma clean_attrib_href: "list_all (\<lambda>kv. fst kv = ''href'') (clean_attrib js at)"
  by (induction at) (auto simp: clean_attrib_def)

lemma clean_siblings_anchors:
  "clean_siblings js es = (t, rs) \<Longrightarrow> only_anchors rs"
proof (induction js es arbitrary: t rs rule: clean_siblings.induct)
  case (1 js)
  then show ?case by simp
next
  case (2 js tg at tx ch ta rest)
  obtain rt rs' where r: "clean_siblings js rest = (rt, rs')" by (cases "clean_siblings js rest")
  obtain ct cs where c: "clean_siblings js ch = (ct, cs)" by (cases "clean_siblings js ch")
  have rs': "only_anchors rs'" using "2.IH"(1) r by blast
  show ?case
  proof (cases "tg \<in> set kill_tags")
    case True
    then show ?thesis using "2.prems" r rs' by simp
  next
    case False
    have cs: "only_anchors cs" using "2.IH"(2) [OF r [symmetric] False c] .
    show ?thesis
      using "2.prems" r c rs' cs False
      by (auto simp: clean_attrib_href only_anchors_last split: if_splits)
  qed
qed

lemma slot_text_slot [simp]: "slot_text (text_slot s) = s"
  by (simp add: slot_text_def text_slot_def)

lemma text_stream_append: "text_stream (xs @ ys) = text_stream xs @ text_stream ys"
  by (induction xs rule: text_stream.induct) auto

lemma text_stream_add_tail:
  "text_stream (add_tail s e # rs) = text_stream [e] @ s @ text_stream rs"
  by (cases e) (simp add: add_tail_def)

lemma text_stream_last:
  assumes "cs \<noteq> []"
  shows "text_stream (butlast cs @ add_tail s (last cs) # rs) = text_stream cs @ s @ text_stream rs"
proof -
  have "text_stream cs = text_stream (butlast cs @ [last cs])" using assms by simp
  also have "\<dots> = text_stream (butlast cs) @ text_stream [last cs]"
    by (rule text_stream_append)
  finally show ?thesis
    by (simp add: text_stream_append text_stream_add_tail)
qed

lemma clean_siblings_text:
  "clean_siblings js es = (t, rs) \<Longrightarrow> t @ text_stream rs = visible_text es"
proof (induction js es arbitrary: t rs rule: clean_siblings.induct)
  case (1 js)
  then show ?case by simp
next
  case (2 js tg at tx ch ta rest)
  obtain rt rs' where r: "clean_siblings js rest = (rt, rs')" by (cases "clean_siblings js rest")
  obtain ct cs where c: "clean_siblings js ch = (ct, cs)" by (cases "clean_siblings js ch")
  have rs': "rt @ text_stream rs' = visible_text rest" using "2.IH"(1) r by blast
  show ?case
  proof (cases "tg \<in> set kill_tags")
    case True
    then show ?thesis using "2.prems" r rs' by auto
  next
    case False
    have cs: "ct @ text_stream cs = visible_text ch" using "2.IH"(2) [OF r [symmetric] False c] .
    show ?thesis
    proof (cases "tg = ''a''")
      case True
      then show ?thesis using "2.prems" r c False rs' [symmetric] cs [symmetric] by auto
    next
      case na: False
      show ?thesis
      proof (cases "cs = []")
        case True
        then show ?thesis using "2.prems" r c False na rs' [symmetric] cs [symmetric] by auto
      next
        case ne: False
        then show ?thesis
          using "2.prems" r c False na rs' [symmetric] cs [symmetric]
          by (auto simp: text_stream_last)
      qed
    qed
  qed
qed


lemmas cleaner_eval =
  clean_html_def clean_attrib_def kill_tags_def text_slot_def add_tail_def slot_text_def

lemma only_anchors_below:
  "only_anchors (children (clean_html js doc))
   \<and> list_all (\<lambda>kv. fst kv = ''href'') (attrib (clean_html js doc))"
proof -
  obtain ct cs where c: "clean_siblings js (children doc) = (ct, cs)"
    by (cases "clean_siblings js (children doc)")
  show ?thesis
    using clean_siblings_anchors [OF c] c by (auto simp: clean_html_def clean_attrib_href)
qed

lemma text_without_killed:
  assumes "tag doc \<notin> set kill_tags"
  shows "text_stream [clean_html js doc] =
     slot_text (etext doc) @ visible_text (children doc) @ slot_text (tail doc)"
proof -
  obtain ct cs where c: "clean_siblings js (children doc) = (ct, cs)"
    by (cases "clean_siblings js (children doc)")
  show ?thesis
    using clean_siblings_text [OF c, symmetric] c assms by (auto simp: clean_html_def)
qed

text \<open>
  C7. The claim is that the text of every removed element is kept where it stood, the
  content of \<^verbatim>\<open>script\<close> and \<^verbatim>\<open>style\<close> alone being removed; the comment on line 71
  says the same (all other tags are cleaned, the text is retained). The cleaner of lines
  72 to 78 leaves the options \<^verbatim>\<open>forms\<close>, \<^verbatim>\<open>frames\<close> and \<^verbatim>\<open>embedded\<close> at their
  defaults, which drop form controls and frames with their content. For
  \<^verbatim>\<open><div class="box">Say <button>Click</button> now <b>or</b> <a href="/x" onclick="f()">go</a><script>f()</script></div>\<close>
  the text to keep is \<^verbatim>\<open>Say Click now or go\<close>; the cleaned document has the anchor
  with its \<^verbatim>\<open>href\<close> alone and the text of the \<^verbatim>\<open>b\<close> element, but the text
  \<^verbatim>\<open>Click\<close> of the button is gone with the button.
\<close>

theorem button_text_is_dropped:
  "clean_html javascript_scheme c7_input =
     Element ''div'' [] (Some ''Say  now or '')
       [Element ''a'' [(''href'', ''/x'')] (Some ''go'') [] None] None
   \<and> text_stream [clean_html javascript_scheme c7_input] = ''Say  now or go''
   \<and> retained_text_spec [c7_input] = ''Say Click now or go''"
  by (simp add: c7_input_def cleaner_eval strip_def isspace_def codepoint_def
      javascript_scheme_def substitute_whitespace_def image_type_def lower_def lower_char_def)



subsection \<open>Anchors without \<^verbatim>\<open>href\<close>\<close>




end
